theory Spec2Isabelle
  imports Complex_Main
begin

section \<open>JavaScript values, exceptions and the browser\<close>

text \<open>
  The service of \<^verbatim>\<open>src/services/authService.ts\<close> talks to three browser facilities:
  \<^verbatim>\<open>fetch\<close>, \<^verbatim>\<open>localStorage\<close> and \<^verbatim>\<open>window.location\<close>. Each becomes explicit here:
  the storage and the location are fields of a \<open>world\<close> that every operation takes and
  returns, every effect is also appended to a \<open>trace\<close> so that the order of effects can be
  stated, and what the network answers is a parameter \<open>net\<close> of the operation.

  A JavaScript string is modelled by its UTF-8 bytes, so that the accented letters of the
  Portuguese messages are two \<open>char\<close>s each. Equality, emptiness and the search for the
  ASCII word \<^verbatim>\<open>fetch\<close> are the same on the bytes as on the string.
\<close>

datatype js_value =
    JNull
  | JBool bool
  | JNum real
  | JStr string
  | JArr "js_value list"
  | JObj "(string \<times> js_value) list"

text \<open>
  \<open>js_value\<close> is what \<^verbatim>\<open>response.json()\<close> can produce; a \<open>js_value option\<close> adds
  \<^verbatim>\<open>undefined\<close> as \<open>None\<close>. The properties of a \<open>JObj\<close> have distinct keys.

  Thrown values: \<open>Error v\<close> is the object built by \<^verbatim>\<open>new Error(v)\<close> (its message is the
  string conversion of \<open>v\<close>, which is \<open>s\<close> itself for \<open>v = JStr s\<close>); \<open>TypeError m\<close> is a
  \<^verbatim>\<open>TypeError\<close> with message \<open>m\<close>; \<open>OtherError n m\<close> is an exception of any other class
  \<open>n\<close> (a \<^verbatim>\<open>SyntaxError\<close> of the JSON parser, a \<^verbatim>\<open>DOMException\<close>) with message \<open>m\<close>.
\<close>

datatype js_exn =
    Error js_value
  | TypeError string
  | OtherError string string

record request =
  url :: string
  http_method :: "string option"
  headers :: "(string \<times> string) list"
  body :: "js_value option"
  timeout :: "nat option"

text \<open>
  The fields of a \<open>request\<close> are the URL and the options given to \<^verbatim>\<open>fetch\<close>, \<open>None\<close> or
  \<open>[]\<close> for an option the call leaves out; \<open>http_method\<close> is the option \<^verbatim>\<open>method\<close> and
  \<open>body\<close> holds the value handed to \<^verbatim>\<open>JSON.stringify\<close>. A response is read through
  \<^verbatim>\<open>status\<close>, \<^verbatim>\<open>ok\<close> and \<^verbatim>\<open>json()\<close> only; \<open>json\<close> is what \<^verbatim>\<open>await response.json()\<close>
  gives: the parsed body, or the exception of a body that does not parse.
\<close>

record Response =
  status :: nat
  json :: "js_exn + js_value"

definition ok :: "Response \<Rightarrow> bool" where
  \<comment> \<open>The Fetch standard: \<^verbatim>\<open>ok\<close> is true when the status is in the range 200 to 299.\<close>
  "ok response = (200 \<le> status response \<and> status response \<le> 299)"

datatype fetch_outcome =
    NetworkFailure js_exn
  | Responded Response

datatype console_arg = CStr string | CNum nat | CExn js_exn

datatype event =
    EvFetch request
  | EvRemoveItem string
  | EvSetHref string
  | EvConsoleLog "console_arg list"
  | EvConsoleError "console_arg list"

record world =
  localStorage :: "string \<Rightarrow> string option"
  location_href :: string
  trace :: "event list"
  null_read_text :: string
  number_text :: "real \<Rightarrow> string"

text \<open>
  \<open>null_read_text\<close> is the message the JavaScript engine gives the \<^verbatim>\<open>TypeError\<close> of a
  property read on \<^verbatim>\<open>null\<close>; the text differs between engines and nothing writes it.
  \<open>number_text\<close> is the engine's conversion of a finite number to a string; the model
  asks it only for the numbers whose string it does not compute itself (see
  \<open>Number_toString\<close>), and nothing writes it either.
\<close>

datatype js_number = Finite real | NaN | PosInfinity | NegInfinity

type_synonym 'a prog = "world \<Rightarrow> (js_exn + 'a) \<times> world"

definition ret :: "'a \<Rightarrow> 'a prog" where
  "ret x = (\<lambda>w. (Inr x, w))"

definition throw :: "js_exn \<Rightarrow> 'a prog" where
  "throw e = (\<lambda>w. (Inl e, w))"

definition bind :: "'a prog \<Rightarrow> ('a \<Rightarrow> 'b prog) \<Rightarrow> 'b prog" where
  "bind m f = (\<lambda>w. case m w of (Inl e, w') \<Rightarrow> (Inl e, w') | (Inr x, w') \<Rightarrow> f x w')"

definition try_catch :: "'a prog \<Rightarrow> (js_exn \<Rightarrow> 'a prog) \<Rightarrow> 'a prog" where
  "try_catch m h = (\<lambda>w. case m w of (Inl e, w') \<Rightarrow> h e w' | (Inr x, w') \<Rightarrow> (Inr x, w'))"

definition emit :: "event \<Rightarrow> unit prog" where
  "emit ev = (\<lambda>w. (Inr (), w\<lparr>trace := trace w @ [ev]\<rparr>))"

definition console_log :: "console_arg list \<Rightarrow> unit prog" where
  "console_log args = emit (EvConsoleLog args)"

definition console_error :: "console_arg list \<Rightarrow> unit prog" where
  "console_error args = emit (EvConsoleError args)"

definition fetch :: "(request \<Rightarrow> fetch_outcome) \<Rightarrow> request \<Rightarrow> Response prog" where
  "fetch net req =
     bind (emit (EvFetch req))
       (\<lambda>_. case net req of NetworkFailure e \<Rightarrow> throw e | Responded response \<Rightarrow> ret response)"

definition response_json :: "Response \<Rightarrow> js_value prog" where
  "response_json response = (case json response of Inl e \<Rightarrow> throw e | Inr v \<Rightarrow> ret v)"

definition localStorage_getItem :: "string \<Rightarrow> string option prog" where
  "localStorage_getItem k = (\<lambda>w. (Inr (localStorage w k), w))"

definition localStorage_removeItem :: "string \<Rightarrow> unit prog" where
  "localStorage_removeItem k =
     (\<lambda>w. (Inr (), w\<lparr>localStorage := (localStorage w)(k := None),
                      trace := trace w @ [EvRemoveItem k]\<rparr>))"

definition set_location_href :: "string \<Rightarrow> unit prog" where
  "set_location_href target =
     (\<lambda>w. (Inr (), w\<lparr>location_href := target, trace := trace w @ [EvSetHref target]\<rparr>))"

fun truthy :: "js_value option \<Rightarrow> bool" where
  "truthy None = False"
| "truthy (Some JNull) = False"
| "truthy (Some (JBool b)) = b"
| "truthy (Some (JNum n)) = (n \<noteq> 0)"
| "truthy (Some (JStr s)) = (s \<noteq> [])"
| "truthy (Some (JArr xs)) = True"
| "truthy (Some (JObj kvs)) = True"

definition or_else :: "js_value option \<Rightarrow> js_value \<Rightarrow> js_value" where
  \<comment> \<open>\<^verbatim>\<open>a || d\<close> for a default \<open>d\<close> that is not \<^verbatim>\<open>undefined\<close>.\<close>
  "or_else a d = (case a of None \<Rightarrow> d | Some v \<Rightarrow> if truthy (Some v) then v else d)"

definition get_message :: "js_value \<Rightarrow> js_value option prog" where
  \<comment> \<open>\<^verbatim>\<open>error.message\<close>: a \<^verbatim>\<open>TypeError\<close> on \<^verbatim>\<open>null\<close>, the property of an object,
      \<^verbatim>\<open>undefined\<close> on a boolean, number, string or array.\<close>
  "get_message v =
     (\<lambda>w. case v of
             JNull \<Rightarrow> (Inl (TypeError (null_read_text w)), w)
           | JObj kvs \<Rightarrow> (Inr (map_of kvs ''message''), w)
           | _ \<Rightarrow> (Inr None, w))"

fun starts_with :: "string \<Rightarrow> string \<Rightarrow> bool" where
  "starts_with s [] = True"
| "starts_with [] (c # cs) = False"
| "starts_with (d # ds) (c # cs) = (d = c \<and> starts_with ds cs)"

fun str_includes :: "string \<Rightarrow> string \<Rightarrow> bool" where
  \<comment> \<open>\<^verbatim>\<open>s.includes(sub)\<close>\<close>
  "str_includes [] sub = (sub = [])"
| "str_includes (c # cs) sub = (starts_with (c # cs) sub \<or> str_includes cs sub)"

fun template :: "string option \<Rightarrow> string" where
  \<comment> \<open>a \<^verbatim>\<open>string | null\<close> inside a template literal\<close>
  "template None = ''null''"
| "template (Some s) = s"

section \<open>The messages\<close>

definition a_acute :: string where "a_acute = [CHR 0xC3, CHR 0xA1]"
definition a_tilde :: string where "a_tilde = [CHR 0xC3, CHR 0xA3]"
definition c_cedilla :: string where "c_cedilla = [CHR 0xC3, CHR 0xA7]"
definition i_acute :: string where "i_acute = [CHR 0xC3, CHR 0xAD]"

definition msg_400 :: string where
  "msg_400 = ''Dados inv'' @ a_acute @ ''lidos enviados para o servidor''"

definition msg_401 :: string where
  "msg_401 = ''Credenciais inv'' @ a_acute @ ''lidas ou sess'' @ a_tilde @ ''o expirada''"

definition msg_403 :: string where
  "msg_403 = ''Acesso negado''"

definition msg_404 :: string where
  "msg_404 = ''Servi'' @ c_cedilla @ ''o n'' @ a_tilde
     @ ''o encontrado. Verifique se o servidor est'' @ a_acute @ '' rodando''"

definition msg_500 :: string where
  "msg_500 = ''Erro interno do servidor''"

definition msg_502 :: string where
  "msg_502 = ''Servidor indispon'' @ i_acute @ ''vel''"

definition msg_503 :: string where
  "msg_503 = ''Servi'' @ c_cedilla @ ''o temporariamente indispon'' @ i_acute @ ''vel''"

definition msg_generic :: string where
  "msg_generic = ''Erro de comunica'' @ c_cedilla @ a_tilde @ ''o com o servidor''"

definition msg_connect :: string where
  "msg_connect = ''N'' @ a_tilde @ ''o foi poss'' @ i_acute
     @ ''vel conectar ao servidor. Verifique sua conex'' @ a_tilde
     @ ''o e se o servidor est'' @ a_acute @ '' rodando.''"

section \<open>AuthService\<close>

record AuthService =
  baseURL :: string

definition AuthService_new :: "string option \<Rightarrow> AuthService" where
  \<comment> \<open>\<^verbatim>\<open>import.meta.env.VITE_API_URL || '/Admin/api'\<close>, evaluated once by the constructor\<close>
  "AuthService_new VITE_API_URL =
     \<lparr>baseURL = (case VITE_API_URL of
                   None \<Rightarrow> ''/Admin/api''
                 | Some u \<Rightarrow> if u \<noteq> [] then u else ''/Admin/api'')\<rparr>"

definition getErrorMessageByStatus :: "nat \<Rightarrow> string" where
  "getErrorMessageByStatus st =
     (if st = 400 then msg_400
      else if st = 401 then msg_401
      else if st = 403 then msg_403
      else if st = 404 then msg_404
      else if st = 500 then msg_500
      else if st = 502 then msg_502
      else if st = 503 then msg_503
      else msg_generic)"

definition clearAuthData :: "unit prog" where
  "clearAuthData = localStorage_removeItem ''admin_token''"

definition handleApiResponse :: "Response \<Rightarrow> Response prog" where
  "handleApiResponse response =
     (if \<not> ok response then
        bind (try_catch (response_json response)
                (\<lambda>e. ret (JObj [(''message'', JStr (getErrorMessageByStatus (status response))),
                                 (''status'', JNum (real (status response)))])))
          (\<lambda>error.
        bind (if status response = 401 \<or> status response = 403
              then bind clearAuthData (\<lambda>_. set_location_href ''/Admin/login'')
              else ret ())
          (\<lambda>_.
        bind (get_message error)
          (\<lambda>m. throw (Error (or_else m (JStr msg_generic))))))
      else ret response)"

definition is_network_TypeError :: "js_exn \<Rightarrow> bool" where
  \<comment> \<open>\<^verbatim>\<open>error instanceof TypeError && error.message.includes('fetch')\<close>\<close>
  "is_network_TypeError error =
     (case error of TypeError m \<Rightarrow> str_includes m ''fetch'' | _ \<Rightarrow> False)"

definition login_request :: "AuthService \<Rightarrow> string \<Rightarrow> string \<Rightarrow> request" where
  "login_request svc email senha =
     \<lparr>url = baseURL svc @ ''/auth/login'',
      http_method = Some ''POST'',
      headers = [(''Content-Type'', ''application/json'')],
      body = Some (JObj [(''email'', JStr email), (''senha'', JStr senha)]),
      timeout = None\<rparr>"

definition login :: "AuthService \<Rightarrow> (request \<Rightarrow> fetch_outcome) \<Rightarrow> string \<Rightarrow> string \<Rightarrow> js_value prog" where
  "login svc net email senha =
     try_catch
       (bind (console_log [CStr ''Tentando fazer login para:'', CStr email]) (\<lambda>_.
        bind (console_log [CStr ''URL da API:'', CStr (baseURL svc @ ''/auth/login'')]) (\<lambda>_.
        bind (fetch net (login_request svc email senha)) (\<lambda>response.
        bind (console_log [CStr ''Status da resposta:'', CNum (status response)]) (\<lambda>_.
        bind (handleApiResponse response) (\<lambda>_.
        response_json response))))))
       (\<lambda>error.
        bind (console_error [CStr ''Erro no authService.login:'', CExn error]) (\<lambda>_.
        if is_network_TypeError error then throw (Error (JStr msg_connect))
        else throw error))"

definition validate_request :: "AuthService \<Rightarrow> string \<Rightarrow> request" where
  "validate_request svc token =
     \<lparr>url = baseURL svc @ ''/auth/validate'',
      http_method = Some ''GET'',
      headers = [(''Authorization'', ''Bearer '' @ token)],
      body = None,
      timeout = None\<rparr>"

definition validateToken :: "AuthService \<Rightarrow> (request \<Rightarrow> fetch_outcome) \<Rightarrow> string \<Rightarrow> js_value prog" where
  "validateToken svc net token =
     try_catch
       (bind (fetch net (validate_request svc token)) (\<lambda>response.
        bind (handleApiResponse response) (\<lambda>_.
        response_json response)))
       (\<lambda>error. bind clearAuthData (\<lambda>_. throw error))"

definition logout_request :: "AuthService \<Rightarrow> string \<Rightarrow> request" where
  "logout_request svc token =
     \<lparr>url = baseURL svc @ ''/auth/logout'',
      http_method = Some ''POST'',
      headers = [(''Authorization'', ''Bearer '' @ token)],
      body = None,
      timeout = None\<rparr>"

definition logout :: "AuthService \<Rightarrow> (request \<Rightarrow> fetch_outcome) \<Rightarrow> unit prog" where
  "logout svc net =
     bind (localStorage_getItem ''admin_token'') (\<lambda>token.
     bind (case token of
             None \<Rightarrow> ret ()
           | Some t \<Rightarrow>
               if t \<noteq> [] then
                 try_catch (bind (fetch net (logout_request svc t)) (\<lambda>_. ret ()))
                   (\<lambda>error. console_error [CStr ''Erro ao fazer logout:'', CExn error])
               else ret ()) (\<lambda>_.
     clearAuthData))"

function decimal :: "nat \<Rightarrow> string" where
  "decimal n =
     (if n < 10 then [''0123456789'' ! n]
      else decimal (n div 10) @ [''0123456789'' ! (n mod 10)])"
  by pat_completeness auto
termination
  by (relation "measure id") auto

definition Number_toString :: "(real \<Rightarrow> string) \<Rightarrow> js_number \<Rightarrow> string" where
  \<comment> \<open>The string of a number inside a template literal. An integer of magnitude up to
      \<open>2^53\<close> is printed digit by digit; for a fraction or a larger number (rounded
      digits, the exponent form from \<open>10^21\<close>) the string is the engine's.\<close>
  "Number_toString engine n =
     (case n of
        NaN \<Rightarrow> ''NaN''
      | PosInfinity \<Rightarrow> ''Infinity''
      | NegInfinity \<Rightarrow> ''-Infinity''
      | Finite x \<Rightarrow>
          if of_int \<lfloor>x\<rfloor> = x \<and> \<bar>x\<bar> \<le> 2 ^ 53 then
            (if x < 0 then ''-'' @ decimal (nat \<lfloor>- x\<rfloor>) else decimal (nat \<lfloor>x\<rfloor>))
          else engine x)"

definition profile_request ::
  "AuthService \<Rightarrow> (real \<Rightarrow> string) \<Rightarrow> js_number \<Rightarrow> string option \<Rightarrow> request" where
  "profile_request svc engine profileId token =
     \<lparr>url = baseURL svc @ ''/profiles/'' @ Number_toString engine profileId,
      http_method = None,
      headers = [(''Authorization'', ''Bearer '' @ template token)],
      body = None,
      timeout = None\<rparr>"

definition getProfile ::
  "AuthService \<Rightarrow> (request \<Rightarrow> fetch_outcome) \<Rightarrow> js_number \<Rightarrow> js_value prog" where
  "getProfile svc net profileId =
     (\<lambda>w. try_catch
            (bind (localStorage_getItem ''admin_token'') (\<lambda>token.
             bind (fetch net (profile_request svc (number_text w) profileId token)) (\<lambda>response.
             bind (handleApiResponse response) (\<lambda>_.
             response_json response))))
            (\<lambda>error. throw error) w)"

definition health_request :: "AuthService \<Rightarrow> request" where
  "health_request svc =
     \<lparr>url = baseURL svc @ ''/health'',
      http_method = Some ''GET'',
      headers = [],
      body = None,
      timeout = Some 5000\<rparr>"

definition checkServerHealth :: "AuthService \<Rightarrow> (request \<Rightarrow> fetch_outcome) \<Rightarrow> bool prog" where
  "checkServerHealth svc net =
     try_catch
       (bind (fetch net (health_request svc)) (\<lambda>response. ret (ok response)))
       (\<lambda>error.
        bind (console_error [CStr (''Servidor n'' @ a_tilde @ ''o est'' @ a_acute @ '' respondendo:''),
                             CExn error]) (\<lambda>_.
        ret False))"

section \<open>ProtectedRoute\<close>

text \<open>
  The component reads \<^verbatim>\<open>isAuthenticated\<close>, \<^verbatim>\<open>loading\<close> and \<^verbatim>\<open>serverError\<close> from
  \<^verbatim>\<open>useAuth()\<close> (it also takes \<^verbatim>\<open>admin\<close> and never uses it), \<^verbatim>\<open>addNotification\<close> from
  \<^verbatim>\<open>useNotification()\<close> and \<^verbatim>\<open>location.pathname\<close> from \<^verbatim>\<open>useLocation()\<close>. What the
  hooks give in one render is a \<open>hooks\<close> record; \<open>addNotification\<close> is the identity of the
  callback, which is all that the dependency array compares.
\<close>

record hooks =
  isAuthenticated :: bool
  loading :: bool
  serverError :: bool
  pathname :: string
  addNotification :: nat

record notification =
  type :: string
  title :: string
  message :: string

datatype 'c element =
    LoadingSpinner
  | Navigate string bool
  | Fragment 'c

definition session_expired :: notification where
  "session_expired =
     \<lparr>type = ''warning'',
      title = ''Sess'' @ a_tilde @ ''o Expirada'',
      message = ''Sua sess'' @ a_tilde @ ''o expirou. Fa'' @ c_cedilla @ ''a login novamente.''\<rparr>"

definition ProtectedRoute_effect :: "hooks \<Rightarrow> (nat \<times> notification) list" where
  \<comment> \<open>The body of the \<^verbatim>\<open>useEffect\<close>: the calls it makes, each with the callback called.\<close>
  "ProtectedRoute_effect h =
     (if \<not> loading h \<and> \<not> isAuthenticated h \<and> \<not> serverError h \<and> pathname h \<noteq> ''/login''
      then [(addNotification h, session_expired)]
      else [])"

definition ProtectedRoute_deps :: "hooks \<Rightarrow> bool \<times> bool \<times> bool \<times> string \<times> nat" where
  "ProtectedRoute_deps h =
     (isAuthenticated h, loading h, serverError h, pathname h, addNotification h)"

definition ProtectedRoute :: "hooks \<Rightarrow> 'c \<Rightarrow> 'c element" where
  "ProtectedRoute h children =
     (if loading h then LoadingSpinner
      else if serverError h then Navigate ''/login'' True
      else if \<not> isAuthenticated h then Navigate ''/login'' True
      else Fragment children)"

text \<open>
  React runs the effect of a mounted component after its first render and after every
  later render in which some element of the dependency array differs from the one of the
  render before. \<open>notifications prev hs\<close> are the calls made over the successive renders
  \<open>hs\<close> of one mounted guard, \<open>prev\<close> being the dependencies of the render before
  (\<open>None\<close> when the guard has just been mounted).
\<close>

definition effect_due :: "(bool \<times> bool \<times> bool \<times> string \<times> nat) option \<Rightarrow> hooks \<Rightarrow> bool" where
  "effect_due prev h = (case prev of None \<Rightarrow> True | Some d \<Rightarrow> d \<noteq> ProtectedRoute_deps h)"

fun notifications ::
  "(bool \<times> bool \<times> bool \<times> string \<times> nat) option \<Rightarrow> hooks list \<Rightarrow> (nat \<times> notification) list" where
  "notifications prev [] = []"
| "notifications prev (h # hs) =
     (if effect_due prev h then ProtectedRoute_effect h else [])
     @ notifications (Some (ProtectedRoute_deps h)) hs"

definition unauthenticated :: "hooks \<Rightarrow> bool" where
  "unauthenticated h = (\<not> loading h \<and> \<not> isAuthenticated h \<and> \<not> serverError h)"

fun transitions :: "bool \<Rightarrow> hooks list \<Rightarrow> nat" where
  \<comment> \<open>how many times the renders \<open>hs\<close> enter the unauthenticated state, \<open>before\<close> telling
      whether the guard was in it already\<close>
  "transitions before [] = 0"
| "transitions before (h # hs) =
     (if unauthenticated h \<and> \<not> before then 1 else 0) + transitions (unauthenticated h) hs"

definition world0 :: world where
  \<comment> \<open>a browser with a token stored, used to run the operations on concrete inputs; no run
      below asks for \<open>number_text\<close>\<close>
  "world0 =
     \<lparr>localStorage = (\<lambda>k. if k = ''admin_token'' then Some ''tok'' else None),
      location_href = ''/Admin/dashboard'',
      trace = [],
      null_read_text = ''Cannot read properties of null'',
      number_text = (\<lambda>x. ''1e+21'')\<rparr>"

section \<open>Proofs\<close>

lemmas prog_defs = ret_def throw_def bind_def try_catch_def emit_def console_log_def
  console_error_def fetch_def response_json_def localStorage_getItem_def
  localStorage_removeItem_def set_location_href_def get_message_def clearAuthData_def

lemma getErrorMessageByStatus_nonempty: "getErrorMessageByStatus st \<noteq> []"
  by (simp add: getErrorMessageByStatus_def msg_400_def msg_401_def msg_403_def msg_404_def
      msg_500_def msg_502_def msg_503_def msg_generic_def)

subsection \<open>The shared response handler\<close>

text \<open>
  Claim C1. For every response whose status is 401 or 403, whether its error body parses
  or not, \<open>handleApiResponse\<close> ends by throwing, and in the world it leaves behind the
  stored token has been removed and the location has been set to \<^verbatim>\<open>/Admin/login\<close>: the two
  effects are exactly what the handler added to the trace, in this order, before the throw.
\<close>

theorem handleApiResponse_401_403:
  assumes "status response = 401 \<or> status response = 403"
  shows "\<exists>e w'. handleApiResponse response w = (Inl e, w')
           \<and> localStorage w' ''admin_token'' = None
           \<and> location_href w' = ''/Admin/login''
           \<and> trace w' = trace w @ [EvRemoveItem ''admin_token'', EvSetHref ''/Admin/login'']"
proof -
  from assms have nok: "\<not> ok response" by (auto simp: ok_def)
  show ?thesis
  proof (cases "json response")
    case (Inl x)
    with nok assms show ?thesis
      by (auto simp: handleApiResponse_def prog_defs)
  next
    case (Inr v)
    with nok assms show ?thesis
      by (cases v) (auto simp: handleApiResponse_def prog_defs)
  qed
qed

theorem handleApiResponse_401_403_witness:
  "(status \<lparr>status = 401, json = Inr JNull\<rparr> = 401
    \<or> status \<lparr>status = 401, json = Inr JNull\<rparr> = 403)
   \<and> isl (fst (handleApiResponse \<lparr>status = 401, json = Inr JNull\<rparr> world0))
   \<and> localStorage (snd (handleApiResponse \<lparr>status = 401, json = Inr JNull\<rparr> world0))
        ''admin_token'' = None
   \<and> location_href (snd (handleApiResponse \<lparr>status = 401, json = Inr JNull\<rparr> world0))
        = ''/Admin/login''
   \<and> localStorage world0 ''admin_token'' = Some ''tok''"
proof -
  let ?r = "\<lparr>status = 401, json = Inr JNull\<rparr>"
  have h: "status ?r = 401 \<or> status ?r = 403" by simp
  have s: "localStorage world0 ''admin_token'' = Some ''tok''" by (simp add: world0_def)
  from handleApiResponse_401_403 [OF h, of world0] obtain e w'
    where "handleApiResponse ?r world0 = (Inl e, w')"
      and "localStorage w' ''admin_token'' = None"
      and "location_href w' = ''/Admin/login''"
    by blast
  with h s show ?thesis by simp
qed

text \<open>
  Claim C5. For a failing response whose body does not parse, the error thrown by
  \<open>handleApiResponse\<close> carries the message of \<open>getErrorMessageByStatus\<close> for the status:
  400, 401, 403, 404, 500, 502 and 503 have a message of their own and every other status
  has the generic message.
\<close>

theorem handleApiResponse_unparsable_message:
  assumes "\<not> ok response" and "json response = Inl e"
  shows "fst (handleApiResponse response w)
           = Inl (Error (JStr (getErrorMessageByStatus (status response))))
         \<and> getErrorMessageByStatus 400 = msg_400
         \<and> getErrorMessageByStatus 401 = msg_401
         \<and> getErrorMessageByStatus 403 = msg_403
         \<and> getErrorMessageByStatus 404 = msg_404
         \<and> getErrorMessageByStatus 500 = msg_500
         \<and> getErrorMessageByStatus 502 = msg_502
         \<and> getErrorMessageByStatus 503 = msg_503
         \<and> (status response \<notin> {400, 401, 403, 404, 500, 502, 503}
              \<longrightarrow> getErrorMessageByStatus (status response) = msg_generic)"
proof -
  have "fst (handleApiResponse response w)
           = Inl (Error (JStr (getErrorMessageByStatus (status response))))"
    using assms getErrorMessageByStatus_nonempty [of "status response"]
    by (simp add: handleApiResponse_def prog_defs or_else_def)
  moreover have "getErrorMessageByStatus 400 = msg_400" "getErrorMessageByStatus 401 = msg_401"
    "getErrorMessageByStatus 403 = msg_403" "getErrorMessageByStatus 404 = msg_404"
    "getErrorMessageByStatus 500 = msg_500" "getErrorMessageByStatus 502 = msg_502"
    "getErrorMessageByStatus 503 = msg_503"
    by (simp_all add: getErrorMessageByStatus_def)
  moreover have "status response \<notin> {400, 401, 403, 404, 500, 502, 503}
              \<longrightarrow> getErrorMessageByStatus (status response) = msg_generic"
    by (simp add: getErrorMessageByStatus_def)
  ultimately show ?thesis by blast
qed

theorem handleApiResponse_unparsable_message_witness:
  "\<not> ok \<lparr>status = 404, json = Inl (OtherError ''SyntaxError'' ''Unexpected token <'')\<rparr>
   \<and> fst (handleApiResponse
             \<lparr>status = 404, json = Inl (OtherError ''SyntaxError'' ''Unexpected token <'')\<rparr> world0)
       = Inl (Error (JStr msg_404))"
proof -
  let ?r = "\<lparr>status = 404, json = Inl (OtherError ''SyntaxError'' ''Unexpected token <'')\<rparr>"
  have h1: "\<not> ok ?r" by (simp add: ok_def)
  have h2: "json ?r = Inl (OtherError ''SyntaxError'' ''Unexpected token <'')" by simp
  from handleApiResponse_unparsable_message [OF h1 h2, of world0] h1
  show ?thesis by simp
qed

text \<open>
  Claim C9. For a successful response, and for a failing one whose status is neither 401
  nor 403, \<open>handleApiResponse\<close> leaves the whole world as it was, the stored token
  included: only the statuses 401 and 403 make it touch the storage.
\<close>

theorem handleApiResponse_frame:
  assumes "ok response \<or> (status response \<noteq> 401 \<and> status response \<noteq> 403)"
  shows "snd (handleApiResponse response w) = w
         \<and> localStorage (snd (handleApiResponse response w)) = localStorage w"
proof -
  have "snd (handleApiResponse response w) = w"
  proof (cases "ok response")
    case True
    then show ?thesis by (simp add: handleApiResponse_def prog_defs)
  next
    case False
    with assms have st: "status response \<noteq> 401" "status response \<noteq> 403" by auto
    show ?thesis
    proof (cases "json response")
      case (Inl x)
      with False st show ?thesis by (simp add: handleApiResponse_def prog_defs)
    next
      case (Inr v)
      with False st show ?thesis by (cases v) (simp_all add: handleApiResponse_def prog_defs)
    qed
  qed
  then show ?thesis by simp
qed

theorem handleApiResponse_frame_witness:
  "(ok \<lparr>status = 500, json = Inr (JObj [(''message'', JStr ''boom'')])\<rparr>
    \<or> (status \<lparr>status = 500, json = Inr (JObj [(''message'', JStr ''boom'')])\<rparr> \<noteq> 401
        \<and> status \<lparr>status = 500, json = Inr (JObj [(''message'', JStr ''boom'')])\<rparr> \<noteq> 403))
   \<and> localStorage
        (snd (handleApiResponse
                \<lparr>status = 500, json = Inr (JObj [(''message'', JStr ''boom'')])\<rparr> world0))
        ''admin_token'' = Some ''tok''
   \<and> ok \<lparr>status = 200, json = Inr JNull\<rparr>
   \<and> localStorage (snd (handleApiResponse \<lparr>status = 200, json = Inr JNull\<rparr> world0))
        ''admin_token'' = Some ''tok''"
proof -
  let ?r = "\<lparr>status = 500, json = Inr (JObj [(''message'', JStr ''boom'')])\<rparr>"
  let ?q = "\<lparr>status = 200, json = Inr JNull\<rparr>"
  have h: "ok ?r \<or> (status ?r \<noteq> 401 \<and> status ?r \<noteq> 403)" by simp
  have k: "ok ?q" by (simp add: ok_def)
  then have k': "ok ?q \<or> (status ?q \<noteq> 401 \<and> status ?q \<noteq> 403)" by blast
  have s: "localStorage world0 ''admin_token'' = Some ''tok''" by (simp add: world0_def)
  from handleApiResponse_frame [OF h, of world0] handleApiResponse_frame [OF k', of world0] h k s
  show ?thesis by simp
qed

subsection \<open>The operations\<close>

text \<open>
  Claim C2. \<open>checkServerHealth\<close> never throws: its result is always a boolean, \<open>True\<close>
  exactly when \<^verbatim>\<open>GET /health\<close> was answered with a status from 200 to 299, \<open>False\<close> for
  any other status and for any exception of \<^verbatim>\<open>fetch\<close>.
\<close>

theorem checkServerHealth_total:
  "\<exists>w'. checkServerHealth svc net w
      = (Inr (case net (health_request svc) of
                NetworkFailure e \<Rightarrow> False
              | Responded response \<Rightarrow> 200 \<le> status response \<and> status response \<le> 299), w')"
  by (cases "net (health_request svc)") (simp_all add: checkServerHealth_def prog_defs ok_def)

theorem checkServerHealth_total_witness:
  "checkServerHealth (AuthService_new None) (\<lambda>req. Responded \<lparr>status = 503, json = Inr JNull\<rparr>)
       world0
     = (Inr False,
        snd (checkServerHealth (AuthService_new None)
               (\<lambda>req. Responded \<lparr>status = 503, json = Inr JNull\<rparr>) world0))
   \<and> checkServerHealth (AuthService_new None) (\<lambda>req. Responded \<lparr>status = 204, json = Inr JNull\<rparr>)
       world0
     = (Inr True,
        snd (checkServerHealth (AuthService_new None)
               (\<lambda>req. Responded \<lparr>status = 204, json = Inr JNull\<rparr>) world0))
   \<and> checkServerHealth (AuthService_new None) (\<lambda>req. NetworkFailure (TypeError ''Failed to fetch''))
       world0
     = (Inr False,
        snd (checkServerHealth (AuthService_new None)
               (\<lambda>req. NetworkFailure (TypeError ''Failed to fetch'')) world0))"
proof -
  let ?svc = "AuthService_new None"
  from checkServerHealth_total
         [of ?svc "\<lambda>req. Responded \<lparr>status = 503, json = Inr JNull\<rparr>" world0]
       checkServerHealth_total
         [of ?svc "\<lambda>req. Responded \<lparr>status = 204, json = Inr JNull\<rparr>" world0]
       checkServerHealth_total
         [of ?svc "\<lambda>req. NetworkFailure (TypeError ''Failed to fetch'')" world0]
  show ?thesis by auto
qed

text \<open>
  Claim C3. \<open>logout\<close> always returns normally with the stored token removed, whether no
  token was stored, the request was answered or \<^verbatim>\<open>fetch\<close> threw. The removal is the last
  effect of the call: the request, when one is made, and the logging of its failure come
  before it in the trace.
\<close>

theorem logout_clears_after_fetch:
  "\<exists>w'. logout svc net w = (Inr (), w')
      \<and> localStorage w' ''admin_token'' = None
      \<and> trace w' = trace w
          @ (case localStorage w ''admin_token'' of
               None \<Rightarrow> []
             | Some t \<Rightarrow>
                 if t = [] then []
                 else EvFetch (logout_request svc t)
                      # (case net (logout_request svc t) of
                           NetworkFailure e \<Rightarrow>
                             [EvConsoleError [CStr ''Erro ao fazer logout:'', CExn e]]
                         | Responded response \<Rightarrow> []))
          @ [EvRemoveItem ''admin_token'']"
proof (cases "localStorage w ''admin_token''")
  case None
  then show ?thesis by (simp add: logout_def prog_defs)
next
  case (Some t)
  show ?thesis
  proof (cases "t = []")
    case True
    with Some show ?thesis by (simp add: logout_def prog_defs)
  next
    case False
    with Some show ?thesis
      by (cases "net (logout_request svc t)") (simp_all add: logout_def prog_defs)
  qed
qed

theorem logout_clears_after_fetch_witness:
  "localStorage world0 ''admin_token'' = Some ''tok''
   \<and> fst (logout (AuthService_new None) (\<lambda>req. NetworkFailure (TypeError ''Failed to fetch''))
            world0) = Inr ()
   \<and> localStorage
        (snd (logout (AuthService_new None) (\<lambda>req. NetworkFailure (TypeError ''Failed to fetch''))
                world0)) ''admin_token'' = None
   \<and> trace (snd (logout (AuthService_new None)
                    (\<lambda>req. NetworkFailure (TypeError ''Failed to fetch'')) world0))
       = [EvFetch (logout_request (AuthService_new None) ''tok''),
          EvConsoleError [CStr ''Erro ao fazer logout:'', CExn (TypeError ''Failed to fetch'')],
          EvRemoveItem ''admin_token'']"
proof -
  have s: "localStorage world0 ''admin_token'' = Some ''tok''" "trace world0 = []"
    by (simp_all add: world0_def)
  from logout_clears_after_fetch
         [of "AuthService_new None" "\<lambda>req. NetworkFailure (TypeError ''Failed to fetch'')" world0]
       s
  show ?thesis by auto
qed

text \<open>
  Claim C4. Whenever \<open>validateToken\<close> throws, the world it leaves has no stored token and
  the removal is the last effect before the error reaches the caller. A failure of
  \<^verbatim>\<open>fetch\<close> and an answer with a failing status are both such throws.
\<close>

theorem validateToken_failure_clears:
  "(\<forall>e w'. validateToken svc net token w = (Inl e, w')
       \<longrightarrow> localStorage w' ''admin_token'' = None
           \<and> (\<exists>pre. trace w' = pre @ [EvRemoveItem ''admin_token'']))
   \<and> (\<forall>e. net (validate_request svc token) = NetworkFailure e
       \<longrightarrow> fst (validateToken svc net token w) = Inl e)
   \<and> (\<forall>response. net (validate_request svc token) = Responded response \<and> \<not> ok response
       \<longrightarrow> isl (fst (validateToken svc net token w)))"
proof -
  have caught: "\<And>m e w'. try_catch m (\<lambda>error. bind clearAuthData (\<lambda>_. throw error)) w = (Inl e, w')
      \<Longrightarrow> localStorage w' ''admin_token'' = None
          \<and> (\<exists>pre. trace w' = pre @ [EvRemoveItem ''admin_token''])"
    by (auto simp: prog_defs split: prod.splits sum.splits)
  have a: "\<forall>e w'. validateToken svc net token w = (Inl e, w')
       \<longrightarrow> localStorage w' ''admin_token'' = None
           \<and> (\<exists>pre. trace w' = pre @ [EvRemoveItem ''admin_token''])"
    unfolding validateToken_def using caught by blast
  have b: "\<forall>e. net (validate_request svc token) = NetworkFailure e
       \<longrightarrow> fst (validateToken svc net token w) = Inl e"
    by (simp add: validateToken_def prog_defs)
  have c: "\<forall>response. net (validate_request svc token) = Responded response \<and> \<not> ok response
       \<longrightarrow> isl (fst (validateToken svc net token w))"
  proof (intro allI impI)
    fix response
    assume h: "net (validate_request svc token) = Responded response \<and> \<not> ok response"
    show "isl (fst (validateToken svc net token w))"
    proof (cases "json response")
      case (Inl x)
      with h show ?thesis
        by (simp add: validateToken_def handleApiResponse_def prog_defs)
    next
      case (Inr v)
      with h show ?thesis
        by (cases v) (simp_all add: validateToken_def handleApiResponse_def prog_defs)
    qed
  qed
  from a b c show ?thesis by blast
qed

theorem validateToken_failure_clears_witness:
  "fst (validateToken (AuthService_new None) (\<lambda>req. NetworkFailure (TypeError ''Failed to fetch''))
          ''tok'' world0) = Inl (TypeError ''Failed to fetch'')
   \<and> localStorage
        (snd (validateToken (AuthService_new None)
                (\<lambda>req. NetworkFailure (TypeError ''Failed to fetch'')) ''tok'' world0))
        ''admin_token'' = None
   \<and> \<not> ok \<lparr>status = 500, json = Inr (JObj [(''message'', JStr ''boom'')])\<rparr>
   \<and> isl (fst (validateToken (AuthService_new None)
                 (\<lambda>req. Responded \<lparr>status = 500, json = Inr (JObj [(''message'', JStr ''boom'')])\<rparr>)
                 ''tok'' world0))
   \<and> localStorage
        (snd (validateToken (AuthService_new None)
                (\<lambda>req. Responded \<lparr>status = 500, json = Inr (JObj [(''message'', JStr ''boom'')])\<rparr>)
                ''tok'' world0))
        ''admin_token'' = None
   \<and> localStorage world0 ''admin_token'' = Some ''tok''"
proof -
  let ?svc = "AuthService_new None"
  let ?n1 = "\<lambda>req::request. NetworkFailure (TypeError ''Failed to fetch'')"
  let ?r = "\<lparr>status = 500, json = Inr (JObj [(''message'', JStr ''boom'')])\<rparr>"
  let ?n2 = "\<lambda>req::request. Responded ?r"
  have s: "localStorage world0 ''admin_token'' = Some ''tok''" by (simp add: world0_def)
  have nok: "\<not> ok ?r" by (simp add: ok_def)
  note t1 = validateToken_failure_clears [of ?svc ?n1 "''tok''" world0]
  note t2 = validateToken_failure_clears [of ?svc ?n2 "''tok''" world0]
  from t1 have a1: "fst (validateToken ?svc ?n1 ''tok'' world0) = Inl (TypeError ''Failed to fetch'')"
    by simp
  then have "validateToken ?svc ?n1 ''tok'' world0
               = (Inl (TypeError ''Failed to fetch''), snd (validateToken ?svc ?n1 ''tok'' world0))"
    by (metis prod.collapse)
  with t1 have b1: "localStorage (snd (validateToken ?svc ?n1 ''tok'' world0)) ''admin_token'' = None"
    by blast
  from t2 nok have a2: "isl (fst (validateToken ?svc ?n2 ''tok'' world0))"
    by simp
  then obtain e where "validateToken ?svc ?n2 ''tok'' world0
               = (Inl e, snd (validateToken ?svc ?n2 ''tok'' world0))"
    by (metis prod.collapse sum.collapse(1))
  with t2 have b2: "localStorage (snd (validateToken ?svc ?n2 ''tok'' world0)) ''admin_token'' = None"
    by blast
  from a1 b1 nok a2 b2 s show ?thesis by blast
qed

lemma login_network_TypeError:
  "net (login_request svc email senha) = NetworkFailure (TypeError m) \<Longrightarrow> str_includes m ''fetch''
   \<Longrightarrow> fst (login svc net email senha w) = Inl (Error (JStr msg_connect))"
  by (simp add: login_def prog_defs is_network_TypeError_def)

lemma login_network_other:
  "net (login_request svc email senha) = NetworkFailure e \<Longrightarrow> \<not> is_network_TypeError e
   \<Longrightarrow> fst (login svc net email senha w) = Inl e"
  by (simp add: login_def prog_defs)

text \<open>
  Claim C6. The claim is that every failure of \<^verbatim>\<open>fetch\<close> inside \<open>login\<close> surfaces the
  fixed connectivity message. \<open>login\<close> recognises such a failure by the word \<^verbatim>\<open>fetch\<close>
  in the message of a \<^verbatim>\<open>TypeError\<close>; the message WebKit gives a refused connection,
  \<^verbatim>\<open>Load failed\<close>, has no such word, and \<open>login\<close> rethrows the raw error.
\<close>

theorem login_load_failed:
  "fst (login (AuthService_new None) (\<lambda>req. NetworkFailure (TypeError ''Load failed''))
          ''admin@example.com'' ''secret'' world0)
     = Inl (TypeError ''Load failed'')
   \<and> fst (login (AuthService_new None) (\<lambda>req. NetworkFailure (TypeError ''Load failed''))
          ''admin@example.com'' ''secret'' world0)
     \<noteq> Inl (Error (JStr msg_connect))"
  by (simp add: login_def prog_defs is_network_TypeError_def)

text \<open>
  Claim C10. With no token stored, \<open>getProfile\<close> still issues its request, as the first
  effect of the call, and the request carries the header \<^verbatim>\<open>Authorization: Bearer null\<close>.
\<close>

theorem getProfile_bearer_null:
  assumes "localStorage w ''admin_token'' = None"
  shows "\<exists>rest. trace (snd (getProfile svc net profileId w))
           = trace w
             @ EvFetch \<lparr>url = baseURL svc @ ''/profiles/'' @ Number_toString (number_text w) profileId,
                        http_method = None,
                        headers = [(''Authorization'', ''Bearer null'')],
                        body = None,
                        timeout = None\<rparr>
             # rest"
proof -
  let ?req = "profile_request svc (number_text w) profileId None"
  have req: "?req = \<lparr>url = baseURL svc @ ''/profiles/'' @ Number_toString (number_text w) profileId,
                        http_method = None,
                        headers = [(''Authorization'', ''Bearer null'')],
                        body = None,
                        timeout = None\<rparr>"
    by (simp add: profile_request_def)
  have grow: "\<And>response w1. \<exists>rest. trace (snd (handleApiResponse response w1)) = trace w1 @ rest"
  proof -
    fix response w1
    show "\<exists>rest. trace (snd (handleApiResponse response w1)) = trace w1 @ rest"
    proof (cases "json response")
      case (Inl x)
      then show ?thesis by (simp add: handleApiResponse_def prog_defs)
    next
      case (Inr v)
      then show ?thesis by (cases v) (simp_all add: handleApiResponse_def prog_defs)
    qed
  qed
  have "\<exists>rest. trace (snd (getProfile svc net profileId w)) = trace w @ EvFetch ?req # rest"
  proof (cases "net ?req")
    case (NetworkFailure e)
    with assms show ?thesis by (simp add: getProfile_def prog_defs)
  next
    case (Responded response)
    let ?w1 = "w\<lparr>trace := trace w @ [EvFetch ?req]\<rparr>"
    from grow [of response ?w1] obtain rest
      where r: "trace (snd (handleApiResponse response ?w1)) = trace ?w1 @ rest" by blast
    obtain res w2 where h: "handleApiResponse response ?w1 = (res, w2)" by (cases "handleApiResponse response ?w1")
    with r have "trace w2 = trace w @ EvFetch ?req # rest" by simp
    with assms Responded h show ?thesis
      by (cases res; cases "json response") (simp_all add: getProfile_def prog_defs)
  qed
  with req show ?thesis by simp
qed

theorem getProfile_bearer_null_witness:
  "localStorage (world0\<lparr>localStorage := (\<lambda>k. None)\<rparr>) ''admin_token'' = None
   \<and> hd (trace (snd (getProfile (AuthService_new None)
                      (\<lambda>req. Responded \<lparr>status = 401, json = Inr JNull\<rparr>) (Finite 7)
                      (world0\<lparr>localStorage := (\<lambda>k. None)\<rparr>))))
       = EvFetch \<lparr>url = ''/Admin/api/profiles/7'',
                  http_method = None,
                  headers = [(''Authorization'', ''Bearer null'')],
                  body = None,
                  timeout = None\<rparr>"
proof -
  let ?w = "world0\<lparr>localStorage := (\<lambda>k. None)\<rparr>"
  have h: "localStorage ?w ''admin_token'' = None" by simp
  have t: "trace ?w = []" by (simp add: world0_def)
  have u: "baseURL (AuthService_new None) @ ''/profiles/'' @ Number_toString (number_text ?w) (Finite 7)
             = ''/Admin/api/profiles/7''"
    by (simp add: AuthService_new_def Number_toString_def)
  from getProfile_bearer_null
         [OF h, of "AuthService_new None" "\<lambda>req. Responded \<lparr>status = 401, json = Inr JNull\<rparr>" "Finite 7"]
  obtain rest where "trace (snd (getProfile (AuthService_new None)
                      (\<lambda>req. Responded \<lparr>status = 401, json = Inr JNull\<rparr>) (Finite 7) ?w))
       = trace ?w @ EvFetch \<lparr>url = baseURL (AuthService_new None) @ ''/profiles/'' @ Number_toString (number_text ?w) (Finite 7),
                  http_method = None,
                  headers = [(''Authorization'', ''Bearer null'')],
                  body = None,
                  timeout = None\<rparr> # rest"
    by blast
  with h t u show ?thesis by simp
qed

subsection \<open>The route guard\<close>

text \<open>
  Claim C7, amended. While \<open>loading\<close> the guard renders the loading indicator and its effect
  notifies nothing; not loading with \<open>serverError\<close> it redirects to \<^verbatim>\<open>/login\<close>; not
  loading, no server error and not authenticated it redirects to \<^verbatim>\<open>/login\<close>; not loading,
  no server error and authenticated it renders the children, with no redirect and no
  notification.
\<close>

theorem ProtectedRoute_states:
  "(loading h \<longrightarrow> ProtectedRoute h children = LoadingSpinner \<and> ProtectedRoute_effect h = [])
   \<and> (\<not> loading h \<and> serverError h \<longrightarrow> ProtectedRoute h children = Navigate ''/login'' True)
   \<and> (\<not> loading h \<and> \<not> serverError h \<and> \<not> isAuthenticated h
        \<longrightarrow> ProtectedRoute h children = Navigate ''/login'' True)
   \<and> (\<not> loading h \<and> \<not> serverError h \<and> isAuthenticated h
        \<longrightarrow> ProtectedRoute h children = Fragment children \<and> ProtectedRoute_effect h = [])"
  by (simp add: ProtectedRoute_def ProtectedRoute_effect_def)

theorem ProtectedRoute_states_witness:
  "ProtectedRoute \<lparr>isAuthenticated = False, loading = True, serverError = False,
                   pathname = ''/dashboard'', addNotification = 0\<rparr> ''children''
     = LoadingSpinner
   \<and> ProtectedRoute \<lparr>isAuthenticated = False, loading = False, serverError = True,
                     pathname = ''/dashboard'', addNotification = 0\<rparr> ''children''
     = Navigate ''/login'' True
   \<and> ProtectedRoute \<lparr>isAuthenticated = False, loading = False, serverError = False,
                     pathname = ''/dashboard'', addNotification = 0\<rparr> ''children''
     = Navigate ''/login'' True
   \<and> ProtectedRoute \<lparr>isAuthenticated = True, loading = False, serverError = False,
                     pathname = ''/dashboard'', addNotification = 0\<rparr> ''children''
     = Fragment ''children''
   \<and> ProtectedRoute_effect \<lparr>isAuthenticated = True, loading = False, serverError = False,
                            pathname = ''/dashboard'', addNotification = 0\<rparr> = []"
  using ProtectedRoute_states
          [of "\<lparr>isAuthenticated = False, loading = True, serverError = False,
                pathname = ''/dashboard'', addNotification = 0\<rparr>" "''children''"]
        ProtectedRoute_states
          [of "\<lparr>isAuthenticated = False, loading = False, serverError = True,
                pathname = ''/dashboard'', addNotification = 0\<rparr>" "''children''"]
        ProtectedRoute_states
          [of "\<lparr>isAuthenticated = False, loading = False, serverError = False,
                pathname = ''/dashboard'', addNotification = 0\<rparr>" "''children''"]
        ProtectedRoute_states
          [of "\<lparr>isAuthenticated = True, loading = False, serverError = False,
                pathname = ''/dashboard'', addNotification = 0\<rparr>" "''children''"]
  by simp

text \<open>
  The claim C7 as written lets the authenticated guard render its children whatever
  \<open>serverError\<close> is. With \<open>serverError\<close> set, the guard of an authenticated session
  redirects.
\<close>

theorem ProtectedRoute_serverError_authenticated:
  "ProtectedRoute \<lparr>isAuthenticated = True, loading = False, serverError = True,
                   pathname = ''/dashboard'', addNotification = 0\<rparr> ''children''
     = Navigate ''/login'' True
   \<and> ProtectedRoute \<lparr>isAuthenticated = True, loading = False, serverError = True,
                     pathname = ''/dashboard'', addNotification = 0\<rparr> ''children''
     \<noteq> Fragment ''children''"
  by (simp add: ProtectedRoute_def)

lemma length_ProtectedRoute_effect:
  "length (ProtectedRoute_effect h)
     = (if unauthenticated h \<and> pathname h \<noteq> ''/login'' then 1 else 0)"
  by (simp add: ProtectedRoute_effect_def unauthenticated_def)

text \<open>
  While the path and the callback stay the same, the dependencies change only with the
  three flags, and the warning is then sent at most once per entry into the
  unauthenticated state.
\<close>

lemma notifications_fixed_path_aux:
  assumes "\<forall>h \<in> set hs. pathname h = p \<and> addNotification h = c"
    and "(prev = None \<and> \<not> before)
         \<or> (\<exists>h0. prev = Some (ProtectedRoute_deps h0) \<and> pathname h0 = p
                 \<and> addNotification h0 = c \<and> before = unauthenticated h0)"
  shows "length (notifications prev hs) \<le> transitions before hs"
  using assms
proof (induction hs arbitrary: prev before)
  case Nil
  show ?case by simp
next
  case (Cons h hs)
  from Cons.prems(1) have hp: "pathname h = p" "addNotification h = c"
    and rest: "\<forall>h \<in> set hs. pathname h = p \<and> addNotification h = c"
    by simp_all
  have nxt: "(Some (ProtectedRoute_deps h) = None \<and> \<not> unauthenticated h)
         \<or> (\<exists>h0. Some (ProtectedRoute_deps h) = Some (ProtectedRoute_deps h0) \<and> pathname h0 = p
                 \<and> addNotification h0 = c \<and> unauthenticated h = unauthenticated h0)"
    using hp by blast
  from Cons.IH [OF rest nxt]
  have ih: "length (notifications (Some (ProtectedRoute_deps h)) hs)
              \<le> transitions (unauthenticated h) hs" .
  have now: "length (if effect_due prev h then ProtectedRoute_effect h else [])
               \<le> (if unauthenticated h \<and> \<not> before then 1 else 0)"
  proof (cases "effect_due prev h \<and> unauthenticated h")
    case True
    from Cons.prems(2) True hp have "\<not> before"
      by (auto simp: effect_due_def ProtectedRoute_deps_def unauthenticated_def)
    with True show ?thesis by (simp add: length_ProtectedRoute_effect)
  next
    case False
    then show ?thesis by (auto simp: ProtectedRoute_effect_def unauthenticated_def)
  qed
  from ih now show ?case by simp
qed

lemma notifications_fixed_path:
  "\<forall>h \<in> set hs. pathname h = p \<and> addNotification h = c
   \<Longrightarrow> length (notifications None hs) \<le> transitions False hs"
  by (rule notifications_fixed_path_aux [where p = p and c = c]) simp_all


lemma notifications_callback_change:
  "length (notifications None
      [\<lparr>isAuthenticated = False, loading = False, serverError = False,
        pathname = ''/dashboard'', addNotification = 0\<rparr>,
       \<lparr>isAuthenticated = False, loading = False, serverError = False,
        pathname = ''/dashboard'', addNotification = 1\<rparr>]) = 2"
  by (simp add: effect_due_def ProtectedRoute_deps_def ProtectedRoute_effect_def)

end
